theory Spec2Isabelle
  imports Main
begin

section \<open>Python values, exceptions and effects\<close>

text \<open>
  The program is \<^verbatim>\<open>AzureMonitorAgent/agent.py\<close>. Its functions talk to the operating
  system, to two helper modules (\<^verbatim>\<open>telhandler\<close>, \<^verbatim>\<open>me_handler\<close>) and to the clock. The
  embedding makes all of that explicit:
  \<^item> an exception is a value \<open>Raised cls msg\<close> (its class and its \<^verbatim>\<open>str()\<close>); the
    exceptions modelled are those of class \<^verbatim>\<open>Exception\<close>, the ones a handler
    \<^verbatim>\<open>except Exception\<close> catches (\<^verbatim>\<open>KeyboardInterrupt\<close> and \<^verbatim>\<open>SystemExit\<close> are not);
  \<^item> a computation is a function from a state to a result (\<open>Inl\<close> an exception, \<open>Inr\<close> a
    value) and the state after it;
  \<^item> the state holds the outside world (of any type \<open>'w\<close>) and the trace of every
    external call made so far, each with the response it got;
  \<^item> each external operation is a field of an environment record: a function of the
    world that gives a response and the next world.
\<close>

datatype exn_class =
  IOError | TypeError | ValueError | AttributeError | UnboundLocalError | OtherError

datatype exn = Raised exn_class string

text \<open>
  Values of Python's dynamic types, as far as the code meets them: the results of
  \<^verbatim>\<open>json.loads\<close>, the handler settings and the token expiry. \<open>PNum\<close> stands for every
  number: the operations used on these values (\<^verbatim>\<open>len\<close>, \<^verbatim>\<open>in\<close>, \<^verbatim>\<open>.get\<close>, truth value,
  \<^verbatim>\<open>int()\<close>) treat a float the way they treat the integer below it.
\<close>

datatype pyval =
  PNone
  | PBool bool
  | PNum int
  | PStr string
  | PList "pyval list"
  | PDict "(string \<times> pyval) list"

datatype agent = Telegraf | MetricsExtension

datatype event =
  RunGetOutput string bool bool "exn + int \<times> string"
  | StderrWrite string "exn + unit"
  | LogInfo string
  | LogError string
  | Sleep int
  | IsFile string bool
  | ReadFile string "exn + string"
  | Now int
  | IsRunning agent "exn + bool"
  | StopService agent "exn + bool \<times> string"
  | RemoveService agent "exn + bool \<times> string"
  | HandleConfig pyval "exn + unit"
  | SetupMe "exn + unit"
  | StartService agent "exn + bool \<times> string"
  | GenerateToken pyval pyval "exn + bool \<times> pyval \<times> string"

record 'w state =
  world :: 'w
  trace :: "event list"

type_synonym ('s, 'a) prog = "'s \<Rightarrow> (exn + 'a) \<times> 's"

definition ret :: "'a \<Rightarrow> ('s, 'a) prog" where
  "ret a s = (Inr a, s)"

definition raise :: "exn \<Rightarrow> ('s, 'a) prog" where
  "raise e s = (Inl e, s)"

definition then_do :: "('s, 'a) prog \<Rightarrow> ('a \<Rightarrow> ('s, 'b) prog) \<Rightarrow> ('s, 'b) prog" where
  "then_do m f s = (case m s of (Inl e, s') \<Rightarrow> (Inl e, s') | (Inr a, s') \<Rightarrow> f a s')"

text \<open>\<^verbatim>\<open>try: m  except <any>: h\<close> (the state changes made before the raise stay).\<close>

definition try_except :: "('s, 'a) prog \<Rightarrow> (exn \<Rightarrow> ('s, 'a) prog) \<Rightarrow> ('s, 'a) prog" where
  "try_except m h s = (case m s of (Inl e, s') \<Rightarrow> h e s' | (Inr a, s') \<Rightarrow> (Inr a, s'))"

text \<open>\<^verbatim>\<open>try: m  finally: c\<close>: \<open>c\<close> runs either way; an exception of \<open>m\<close> is raised again
  after it, unless \<open>c\<close> raises one of its own.\<close>

definition try_finally :: "('s, 'a) prog \<Rightarrow> ('s, unit) prog \<Rightarrow> ('s, 'a) prog" where
  "try_finally m c s = (case m s of (r, s') \<Rightarrow>
     (case c s' of (Inl e, s'') \<Rightarrow> (Inl e, s'') | (Inr _, s'') \<Rightarrow> (r, s'')))"

text \<open>An external call: the environment's operation runs on the world, and the call is
  appended to the trace with its response.\<close>

definition ext ::
  "('r \<Rightarrow> event) \<Rightarrow> ('w \<Rightarrow> 'r \<times> 'w) \<Rightarrow> (('w, 'm) state_scheme, 'r) prog" where
  "ext ev f s = (case f (world s) of (r, w') \<Rightarrow>
     (Inr r, s\<lparr>world := w', trace := trace s @ [ev r]\<rparr>))"

text \<open>An external call that may raise: the response is the result.\<close>

definition ext_raising ::
  "((exn + 'a) \<Rightarrow> event) \<Rightarrow> ('w \<Rightarrow> (exn + 'a) \<times> 'w) \<Rightarrow> (('w, 'm) state_scheme, 'a) prog" where
  "ext_raising ev f s = (case f (world s) of (r, w') \<Rightarrow>
     (r, s\<lparr>world := w', trace := trace s @ [ev r]\<rparr>))"

definition emit :: "event \<Rightarrow> (('w, 'm) state_scheme, unit) prog" where
  "emit e s = (Inr (), s\<lparr>trace := trace s @ [e]\<rparr>)"

text \<open>\<^verbatim>\<open>hutil_log_info\<close> and \<^verbatim>\<open>hutil_log_error\<close> (lines 1526-1545) hand the message to
  the handler's logger or print it; the model appends it to the trace.\<close>

definition hutil_log_info :: "string \<Rightarrow> (('w, 'm) state_scheme, unit) prog" where
  "hutil_log_info message = emit (LogInfo message)"

definition hutil_log_error :: "string \<Rightarrow> (('w, 'm) state_scheme, unit) prog" where
  "hutil_log_error message = emit (LogError message)"

text \<open>\<^verbatim>\<open>time.sleep(t)\<close> raises ValueError on a negative length.\<close>

definition time_sleep :: "int \<Rightarrow> (('w, 'm) state_scheme, unit) prog" where
  "time_sleep t =
     (if t < 0 then raise (Raised ValueError ''sleep length must be non-negative'')
      else emit (Sleep t))"

subsection \<open>Strings\<close>


abbreviation dquote :: char where
  "dquote \<equiv> CHR 0x22"

text \<open>\<^verbatim>\<open>sub in s\<close> on two strings.\<close>

fun contains :: "string \<Rightarrow> string \<Rightarrow> bool" where
  "contains sub [] = (sub = [])"
| "contains sub (c # cs) = (take (length sub) (c # cs) = sub \<or> contains sub cs)"


definition is_space :: "char \<Rightarrow> bool" where
  "is_space c = (c \<in> set [CHR '' '', CHR 0x09, CHR 0x0A, CHR 0x0B, CHR 0x0C, CHR 0x0D])"

text \<open>\<^verbatim>\<open>s.rstrip()\<close> (ASCII white space).\<close>

definition rstrip :: "string \<Rightarrow> string" where
  "rstrip s = rev (dropWhile is_space (rev s))"


subsection \<open>Running a command (lines 1169-1196)\<close>





subsection \<open>Retrying a command (lines 1198-1234)\<close>






definition InitialRetrySleepSeconds :: int where
  "InitialRetrySleepSeconds = 30"


subsection \<open>The dpkg lock (lines 1237-1275)\<close>






subsection \<open>Reading a trace\<close>

text \<open>The sleeps of a trace, in order, and the commands handed to \<^verbatim>\<open>run_get_output\<close>.\<close>

fun sleeps_of :: "event list \<Rightarrow> int list" where
  "sleeps_of [] = []"
| "sleeps_of (Sleep t # es) = t # sleeps_of es"
| "sleeps_of (e # es) = sleeps_of es"

fun commands_run :: "event list \<Rightarrow> string list" where
  "commands_run [] = []"
| "commands_run (RunGetOutput cmd a b r # es) = cmd # commands_run es"
| "commands_run (e # es) = commands_run es"


subsection \<open>What the claims about the retry loop speak of\<close>







subsection \<open>Concrete shells\<close>





section \<open>Python's operations on dynamic values\<close>

text \<open>The truth value of an object (\<^verbatim>\<open>if x:\<close>, \<^verbatim>\<open>not x\<close>).\<close>

fun truthy :: "pyval \<Rightarrow> bool" where
  "truthy PNone = False"
| "truthy (PBool b) = b"
| "truthy (PNum n) = (n \<noteq> 0)"
| "truthy (PStr s) = (s \<noteq> [])"
| "truthy (PList xs) = (xs \<noteq> [])"
| "truthy (PDict kvs) = (kvs \<noteq> [])"

text \<open>\<^verbatim>\<open>len(x)\<close>; a dictionary counts its keys.\<close>

fun py_len :: "pyval \<Rightarrow> exn + nat" where
  "py_len (PStr s) = Inr (length s)"
| "py_len (PList xs) = Inr (length xs)"
| "py_len (PDict kvs) = Inr (length (remdups (map fst kvs)))"
| "py_len v = Inl (Raised TypeError ''object has no len()'')"

text \<open>\<^verbatim>\<open>key in x\<close> for a string \<open>key\<close>: a key of a dictionary, a substring of a string,
  an element of a list; other objects are not iterable.\<close>

fun py_in :: "string \<Rightarrow> pyval \<Rightarrow> exn + bool" where
  "py_in key (PDict kvs) = Inr (key \<in> set (map fst kvs))"
| "py_in key (PStr s) = Inr (contains key s)"
| "py_in key (PList xs) = Inr (PStr key \<in> set xs)"
| "py_in key v = Inl (Raised TypeError ''argument is not iterable'')"

text \<open>\<^verbatim>\<open>x.get(key)\<close>: only a dictionary has the method; a missing key gives \<^verbatim>\<open>None\<close>.\<close>

fun py_get :: "pyval \<Rightarrow> string \<Rightarrow> exn + pyval" where
  "py_get (PDict kvs) key = Inr (case map_of kvs key of None \<Rightarrow> PNone | Some v \<Rightarrow> v)"
| "py_get v key = Inl (Raised AttributeError ''object has no attribute get'')"

text \<open>Decimal numerals: \<^verbatim>\<open>str(n)\<close> and \<^verbatim>\<open>int(s)\<close>.\<close>

definition digit_char :: "nat \<Rightarrow> char" where
  "digit_char d = ''0123456789'' ! (d mod 10)"

fun str_nat :: "nat \<Rightarrow> string" where
  "str_nat n = (if n < 10 then [digit_char n] else str_nat (n div 10) @ [digit_char (n mod 10)])"

definition str_int :: "int \<Rightarrow> string" where
  "str_int i = (if i < 0 then CHR ''-'' # str_nat (nat (- i)) else str_nat (nat i))"

definition is_digit :: "char \<Rightarrow> bool" where
  "is_digit c = (c \<in> set ''0123456789'')"

definition digit_val :: "char \<Rightarrow> int" where
  "digit_val c = of_char c - of_char (CHR ''0'')"

text \<open>The digits of a numeral, most significant first; \<^verbatim>\<open>int()\<close> accepts one underscore
  between two digits.\<close>

fun parse_digits :: "int \<Rightarrow> string \<Rightarrow> int option" where
  "parse_digits acc [] = Some acc"
| "parse_digits acc [c] = (if is_digit c then Some (acc * 10 + digit_val c) else None)"
| "parse_digits acc (c # d # cs) =
     (if is_digit c then parse_digits (acc * 10 + digit_val c) (d # cs)
      else if c = CHR ''_'' \<and> is_digit d then parse_digits acc (d # cs)
      else None)"

definition strip :: "string \<Rightarrow> string" where
  "strip s = rstrip (dropWhile is_space s)"

definition int_of_str :: "string \<Rightarrow> int option" where
  "int_of_str s =
     (case strip s of
        [] \<Rightarrow> None
      | c # cs \<Rightarrow>
          if c = CHR ''-'' then
            (case cs of [] \<Rightarrow> None
             | d # ds \<Rightarrow> if is_digit d then map_option uminus (parse_digits 0 cs) else None)
          else if c = CHR ''+'' then
            (case cs of [] \<Rightarrow> None
             | d # ds \<Rightarrow> if is_digit d then parse_digits 0 cs else None)
          else if is_digit c then parse_digits 0 (c # cs)
          else None)"

text \<open>\<^verbatim>\<open>int(x)\<close>.\<close>

fun py_int :: "pyval \<Rightarrow> exn + int" where
  "py_int (PNum n) = Inr n"
| "py_int (PBool b) = Inr (if b then 1 else 0)"
| "py_int (PStr s) =
     (case int_of_str s of
        None \<Rightarrow> Inl (Raised ValueError ''invalid literal for int() with base 10'')
      | Some n \<Rightarrow> Inr n)"
| "py_int v = Inl (Raised TypeError ''int() argument must be a string or a number'')"

text \<open>
  Time is counted in microseconds, the resolution of \<^verbatim>\<open>datetime\<close>.
  \<^verbatim>\<open>datetime.fromtimestamp(e)\<close> gives the local time of \<open>e\<close> seconds after the epoch and
  raises outside the years 1 to 9999; \<^verbatim>\<open>datetime.now()\<close> is the local time of the clock.
  Both are naive local times, so their difference is the difference of the two instants
  as long as the zone's offset is the same at both; the model takes the offset as fixed.
\<close>

definition fromtimestamp :: "int \<Rightarrow> exn + int" where
  "fromtimestamp e =
     (if - 62135596800 \<le> e \<and> e \<le> 253402300799 then Inr (e * 1000000)
      else Inl (Raised ValueError ''year is out of range''))"

definition timedelta_minutes :: "int \<Rightarrow> int" where
  "timedelta_minutes m = m * 60 * 1000000"

section \<open>The managed identity (lines 649-680)\<close>

text \<open>
  \<^verbatim>\<open>[a-fA-F0-9]{8}-[a-fA-F0-9]{4}-[a-fA-F0-9]{4}-[a-fA-F0-9]{4}-[a-fA-F0-9]{12}\<close>:
  \<open>guid_form\<close> holds of a string that is a GUID, and \<^verbatim>\<open>guid_re.search\<close> looks for such a
  string at every position of its argument.
\<close>

definition is_hex :: "char \<Rightarrow> bool" where
  "is_hex c = (c \<in> set ''abcdefABCDEF0123456789'')"

definition guid_form :: "string \<Rightarrow> bool" where
  "guid_form g =
     list_all2 (\<lambda>p c. if p = CHR ''h'' then is_hex c else c = CHR ''-'')
       ''hhhhhhhh-hhhh-hhhh-hhhh-hhhhhhhhhhhh'' g"

fun guid_search :: "string \<Rightarrow> bool" where
  "guid_search [] = False"
| "guid_search (c # cs) = (guid_form (take 36 (c # cs)) \<or> guid_search cs)"

text \<open>\<^verbatim>\<open>guid_re.search(x)\<close> raises TypeError on an object that is not a string.\<close>

fun py_guid_search :: "pyval \<Rightarrow> exn + bool" where
  "py_guid_search (PStr s) = Inr (guid_search s)"
| "py_guid_search v = Inl (Raised TypeError ''expected string or bytes-like object'')"

text \<open>A pure step that may raise, as the first part of a sequence.\<close>

definition and_then :: "exn + 'a \<Rightarrow> ('a \<Rightarrow> exn + 'b) \<Rightarrow> exn + 'b" where
  "and_then r f = (case r of Inl e \<Rightarrow> Inl e | Inr a \<Rightarrow> f a)"

text \<open>
  \<^verbatim>\<open>get_managed_identity\<close> reads the public settings through \<^verbatim>\<open>get_settings()\<close>
  (lines 1278-1350); here they are the argument. The result is the identifier's name,
  its value and the error message. \<^verbatim>\<open>a and b and c\<close> evaluates \<open>b\<close> only when \<open>a\<close> holds.
\<close>

definition get_managed_identity :: "pyval \<Rightarrow> exn + pyval \<times> pyval \<times> string" where
  "get_managed_identity public_settings =
     (let identifier_name = PStr []; identifier_value = PStr [] in
      and_then (if public_settings = PNone then Inr False
                else and_then (py_in ''authentication'' public_settings) (\<lambda>has_auth.
                     if \<not> has_auth then Inr False
                     else and_then (py_get public_settings ''authentication'') (\<lambda>auth.
                          py_in ''managedIdentity'' auth))) (\<lambda>specified.
      if specified then
        and_then (py_get public_settings ''authentication'') (\<lambda>auth.
        and_then (py_get auth ''managedIdentity'') (\<lambda>managedIdentity.
        and_then (py_in ''identifier-name'' managedIdentity) (\<lambda>has_name.
        and_then (if \<not> has_name then Inr True
                  else and_then (py_in ''identifier-value'' managedIdentity) (\<lambda>has_value.
                       Inr (\<not> has_value))) (\<lambda>missing.
        if missing then
          Inr (identifier_name, identifier_value,
               ''Parameters '' @ [dquote] @ ''identifier-name'' @ [dquote] @ '' and ''
               @ [dquote] @ ''identifier-value'' @ [dquote]
               @ '' are both required in authentication.managedIdentity public setting'')
        else
          and_then (py_get managedIdentity ''identifier-name'') (\<lambda>identifier_name.
          and_then (py_get managedIdentity ''identifier-value'') (\<lambda>identifier_value.
          if identifier_name \<notin> set [PStr ''object_id'', PStr ''client_id'', PStr ''mi_res_id'']
          then
            Inr (identifier_name, identifier_value,
                 ''Invalid identifier-name provided; must be '' @ [dquote] @ ''object_id''
                 @ [dquote] @ '', '' @ [dquote] @ ''client_id'' @ [dquote] @ '', or ''
                 @ [dquote] @ ''mi_res_id'' @ [dquote])
          else if \<not> truthy identifier_value then
            Inr (identifier_name, identifier_value,
                 ''Invalid identifier-value provided; cannot be empty'')
          else if identifier_name \<in> set [PStr ''object_id'', PStr ''client_id''] then
            and_then (py_guid_search identifier_value) (\<lambda>found.
            if \<not> found then
              Inr (identifier_name, identifier_value,
                   ''Invalid identifier-value provided for ''
                   @ (case identifier_name of PStr n \<Rightarrow> n | _ \<Rightarrow> [])
                   @ ''; must be a GUID'')
            else Inr (identifier_name, identifier_value, []))
          else Inr (identifier_name, identifier_value, [])))))))
      else Inr (identifier_name, identifier_value, [])))"

subsection \<open>What claim C7 speaks of\<close>

text \<open>
  Settings of the shape the handler documents: no settings at all, or a dictionary
  whose \<^verbatim>\<open>authentication\<close>, when present, is a dictionary, whose \<^verbatim>\<open>managedIdentity\<close>, when
  present, is a dictionary, whose \<^verbatim>\<open>identifier-name\<close> and \<^verbatim>\<open>identifier-value\<close>, when
  present, are strings.
\<close>

definition string_or_absent :: "(string \<times> pyval) list \<Rightarrow> string \<Rightarrow> bool" where
  "string_or_absent kvs key =
     (case map_of kvs key of None \<Rightarrow> True | Some (PStr s) \<Rightarrow> True | Some v \<Rightarrow> False)"

definition identity_typed :: "pyval \<Rightarrow> bool" where
  "identity_typed mi =
     (case mi of
        PDict kvs \<Rightarrow> string_or_absent kvs ''identifier-name''
                     \<and> string_or_absent kvs ''identifier-value''
      | _ \<Rightarrow> False)"

definition settings_typed :: "pyval \<Rightarrow> bool" where
  "settings_typed public_settings =
     (case public_settings of
        PNone \<Rightarrow> True
      | PDict kvs \<Rightarrow>
          (case map_of kvs ''authentication'' of
             None \<Rightarrow> True
           | Some (PDict auth) \<Rightarrow>
               (case map_of auth ''managedIdentity'' of
                  None \<Rightarrow> True
                | Some mi \<Rightarrow> identity_typed mi)
           | Some v \<Rightarrow> False)
      | _ \<Rightarrow> False)"

text \<open>The \<^verbatim>\<open>authentication.managedIdentity\<close> the settings specify, if any.\<close>

definition managed_identity_of :: "pyval \<Rightarrow> (string \<times> pyval) list option" where
  "managed_identity_of public_settings =
     (case public_settings of
        PDict kvs \<Rightarrow>
          (case map_of kvs ''authentication'' of
             Some (PDict auth) \<Rightarrow>
               (case map_of auth ''managedIdentity'' of
                  Some (PDict mi) \<Rightarrow> Some mi
                | _ \<Rightarrow> None)
           | _ \<Rightarrow> None)
      | _ \<Rightarrow> None)"

text \<open>The claim's condition for an error, with "matches GUID syntax" read the way the
  code reads it: the value contains a GUID.\<close>

definition identity_invalid :: "(string \<times> pyval) list \<Rightarrow> bool" where
  "identity_invalid mi =
     (case (map_of mi ''identifier-name'', map_of mi ''identifier-value'') of
        (Some (PStr name), Some (PStr v)) \<Rightarrow>
          name \<notin> {''object_id'', ''client_id'', ''mi_res_id''}
          \<or> v = []
          \<or> (name \<in> {''object_id'', ''client_id''} \<and> \<not> guid_search v)
      | _ \<Rightarrow> True)"

definition settings_with_identity :: "string \<Rightarrow> string \<Rightarrow> pyval" where
  "settings_with_identity name v =
     PDict [(''authentication'',
             PDict [(''managedIdentity'',
                     PDict [(''identifier-name'', PStr name), (''identifier-value'', PStr v)])])]"

section \<open>The metrics watcher (lines 743-912)\<close>

text \<open>
  What the watcher calls outside this file: the file system, \<^verbatim>\<open>json\<close>, \<^verbatim>\<open>hashlib\<close>, the
  clock, and the two helper modules \<^verbatim>\<open>telhandler\<close> (telegraf, the collector) and
  \<^verbatim>\<open>me_handler\<close> (MetricsExtension, the exporter). \<^verbatim>\<open>json.loads\<close> and the SHA-256 digest are
  functions of their argument; every other operation reads and changes the world, and
  every helper may raise. All helpers are called with \<^verbatim>\<open>is_lad=False\<close>.
\<close>

record 'w handlers =
  isfile :: "string \<Rightarrow> 'w \<Rightarrow> bool \<times> 'w"
  read_file :: "string \<Rightarrow> 'w \<Rightarrow> (exn + string) \<times> 'w"
  json_loads :: "string \<Rightarrow> exn + pyval"
  sha256_hexdigest :: "string \<Rightarrow> string"
  datetime_now :: "'w \<Rightarrow> int \<times> 'w"
  tel_is_running :: "'w \<Rightarrow> (exn + bool) \<times> 'w"
  stop_telegraf_service :: "'w \<Rightarrow> (exn + bool \<times> string) \<times> 'w"
  remove_telegraf_service :: "'w \<Rightarrow> (exn + bool \<times> string) \<times> 'w"
  handle_config :: "pyval \<Rightarrow> 'w \<Rightarrow> (exn + unit) \<times> 'w"
  start_telegraf :: "'w \<Rightarrow> (exn + bool \<times> string) \<times> 'w"
  me_is_running :: "'w \<Rightarrow> (exn + bool) \<times> 'w"
  stop_metrics_service :: "'w \<Rightarrow> (exn + bool \<times> string) \<times> 'w"
  remove_metrics_service :: "'w \<Rightarrow> (exn + bool \<times> string) \<times> 'w"
  setup_me :: "'w \<Rightarrow> (exn + unit) \<times> 'w"
  start_metrics :: "'w \<Rightarrow> (exn + bool \<times> string) \<times> 'w"
  generate_MSI_token :: "pyval \<Rightarrow> pyval \<Rightarrow> 'w \<Rightarrow> (exn + bool \<times> pyval \<times> string) \<times> 'w"

text \<open>
  The locals of \<^verbatim>\<open>metrics_watcher\<close> that live from one pass of \<^verbatim>\<open>while True\<close> to the next.
  The two counters are unbound until line 860 assigns them; the value they have in a
  starting state is never read.
\<close>

record 'w watcher = "'w state" +
  last_crc :: "string option"
  me_msi_token_expiry_epoch :: pyval
  telegraf_restart_retries :: int
  me_restart_retries :: int

definition MdsdCounterJsonPath :: string where
  "MdsdCounterJsonPath = ''/etc/opt/microsoft/azuremonitoragent/config-cache/metricCounters.json''"

text \<open>\<^verbatim>\<open>os.path.join(os.getcwd(), "/config/metrics_configs/AuthToken-MSI.json")\<close>: the second
  part is absolute, so the working directory is dropped.\<close>

definition me_token_path :: string where
  "me_token_path = ''/config/metrics_configs/AuthToken-MSI.json''"

definition sleepTime :: int where
  "sleepTime = 30"

definition max_restart_retries :: int where
  "max_restart_retries = 10"

text \<open>A pure step that may raise, as a computation; reading and changing the locals.\<close>

definition lift :: "exn + 'a \<Rightarrow> ('s, 'a) prog" where
  "lift r s = (r, s)"

definition get_local :: "('s \<Rightarrow> 'a) \<Rightarrow> ('s, 'a) prog" where
  "get_local f s = (Inr (f s), s)"

definition set_local :: "('s \<Rightarrow> 's) \<Rightarrow> ('s, unit) prog" where
  "set_local g s = (Inr (), g s)"

text \<open>\<^verbatim>\<open>metrics()\<close> (line 923) passes \<^verbatim>\<open>hutil_log_error\<close> as \<^verbatim>\<open>hutil_error\<close> and
  \<^verbatim>\<open>hutil_log_info\<close> as \<^verbatim>\<open>hutil_log\<close>.\<close>

definition log_outcome :: "bool \<Rightarrow> string \<Rightarrow> string \<Rightarrow> (('w, 'm) state_scheme, unit) prog" where
  "log_outcome ok good bad = (if ok then hutil_log_info good else hutil_log_error bad)"

subsection \<open>A configuration without counters (lines 771-798)\<close>

definition stop_and_remove_telegraf :: "'w handlers \<Rightarrow> ('w watcher, unit) prog" where
  "stop_and_remove_telegraf E =
     then_do (ext_raising (IsRunning Telegraf) (tel_is_running E)) (\<lambda>running.
     if running then
       then_do (ext_raising (StopService Telegraf) (stop_telegraf_service E)) (\<lambda>(tel_out, tel_msg).
       then_do (log_outcome tel_out tel_msg tel_msg) (\<lambda>_.
       then_do (ext_raising (RemoveService Telegraf) (remove_telegraf_service E))
         (\<lambda>(tel_rm_out, tel_rm_msg).
       log_outcome tel_rm_out tel_rm_msg tel_rm_msg)))
     else ret ())"

definition stop_and_remove_me :: "'w handlers \<Rightarrow> ('w watcher, unit) prog" where
  "stop_and_remove_me E =
     then_do (ext_raising (IsRunning MetricsExtension) (me_is_running E)) (\<lambda>running.
     if running then
       then_do (ext_raising (StopService MetricsExtension) (stop_metrics_service E))
         (\<lambda>(me_out, me_msg).
       then_do (log_outcome me_out me_msg me_msg) (\<lambda>_.
       then_do (ext_raising (RemoveService MetricsExtension) (remove_metrics_service E))
         (\<lambda>(me_rm_out, me_rm_msg).
       log_outcome me_rm_out me_rm_msg me_rm_msg)))
     else ret ())"

definition cleared_config :: "'w handlers \<Rightarrow> string \<Rightarrow> ('w watcher, unit) prog" where
  "cleared_config E data =
     then_do (set_local (\<lambda>s. s\<lparr>last_crc := Some (sha256_hexdigest E data)\<rparr>)) (\<lambda>_.
     then_do (stop_and_remove_telegraf E) (\<lambda>_.
     stop_and_remove_me E))"

subsection \<open>A changed configuration (lines 800-829)\<close>

definition setup_metrics :: "'w handlers \<Rightarrow> pyval \<Rightarrow> string \<Rightarrow> string \<Rightarrow> ('w watcher, unit) prog" where
  "setup_metrics E json_data data crc =
     then_do (set_local (\<lambda>s. s\<lparr>me_msi_token_expiry_epoch := PNone\<rparr>)) (\<lambda>_.
     then_do (hutil_log_info ''Start processing metric configuration'') (\<lambda>_.
     then_do (hutil_log_info data) (\<lambda>_.
     then_do (ext_raising (HandleConfig json_data) (handle_config E json_data)) (\<lambda>_.
     then_do (ext_raising SetupMe (setup_me E)) (\<lambda>_.
     then_do (ext_raising (StartService Telegraf) (start_telegraf E))
       (\<lambda>(start_telegraf_res, log_messages).
     then_do (log_outcome start_telegraf_res ''Successfully started metrics-sourcer.''
                log_messages) (\<lambda>_.
     then_do (ext_raising (StartService MetricsExtension) (start_metrics E))
       (\<lambda>(start_metrics_out, log_messages).
     then_do (log_outcome start_metrics_out ''Successfully started metrics-extension.''
                log_messages) (\<lambda>_.
     set_local (\<lambda>s. s\<lparr>last_crc := Some crc\<rparr>))))))))))"

subsection \<open>The token (lines 831-858)\<close>

text \<open>
  Lines 834-843. Without an expiry in memory the token file is consulted. Its content is
  the string \<^verbatim>\<open>f.read()\<close> returned, so \<^verbatim>\<open>authtoken_content["expires_on"]\<close> indexes a string
  with a string and raises TypeError. The result is \<^verbatim>\<open>generate_token\<close>.
\<close>

definition consult_token_file :: "'w handlers \<Rightarrow> ('w watcher, bool) prog" where
  "consult_token_file E =
     then_do (get_local me_msi_token_expiry_epoch) (\<lambda>expiry.
     if expiry = PNone \<or> expiry = PStr [] then
       then_do (ext (IsFile me_token_path) (isfile E me_token_path)) (\<lambda>present.
       if present then
         then_do (ext_raising (ReadFile me_token_path) (read_file E me_token_path))
           (\<lambda>authtoken_content.
         if authtoken_content \<noteq> [] \<and> contains ''expires_on'' authtoken_content
         then raise (Raised TypeError ''string indices must be integers'')
         else ret True)
       else ret True)
     else ret False)"

text \<open>Lines 845-850: with an expiry in memory, less than 30 minutes to it asks for a
  new token.\<close>

definition check_expiry :: "'w handlers \<Rightarrow> bool \<Rightarrow> ('w watcher, bool) prog" where
  "check_expiry E generate_token =
     then_do (get_local me_msi_token_expiry_epoch) (\<lambda>expiry.
     if truthy expiry then
       then_do (ext Now (datetime_now E)) (\<lambda>currentTime.
       then_do (lift (py_int expiry)) (\<lambda>epoch.
       then_do (lift (fromtimestamp epoch)) (\<lambda>token_expiry_time.
       ret (if token_expiry_time - currentTime < timedelta_minutes 30 then True
            else generate_token))))
     else ret generate_token)"

text \<open>Lines 852-858: the refresh; the expiry in memory becomes the one that
  \<^verbatim>\<open>generate_MSI_token\<close> returned.\<close>

definition generate_if_needed ::
  "'w handlers \<Rightarrow> pyval \<Rightarrow> pyval \<Rightarrow> bool \<Rightarrow> ('w watcher, unit) prog" where
  "generate_if_needed E identifier_name identifier_value generate_token =
     (if generate_token then
        then_do (ext_raising (GenerateToken identifier_name identifier_value)
                   (generate_MSI_token E identifier_name identifier_value))
          (\<lambda>(msi_token_generated, expiry, log_messages).
        then_do (set_local (\<lambda>s. s\<lparr>me_msi_token_expiry_epoch := expiry\<rparr>)) (\<lambda>_.
        log_outcome msi_token_generated
          ''Successfully refreshed metrics-extension MSI Auth token.'' log_messages))
      else ret ())"

definition refresh_token :: "'w handlers \<Rightarrow> pyval \<Rightarrow> pyval \<Rightarrow> ('w watcher, unit) prog" where
  "refresh_token E identifier_name identifier_value =
     then_do (consult_token_file E) (\<lambda>generate_token.
     then_do (check_expiry E generate_token) (\<lambda>generate_token.
     generate_if_needed E identifier_name identifier_value generate_token))"

subsection \<open>The liveness checks (lines 860-903)\<close>

definition check_telegraf :: "'w handlers \<Rightarrow> ('w watcher, unit) prog" where
  "check_telegraf E =
     then_do (ext_raising (IsRunning Telegraf) (tel_is_running E)) (\<lambda>running.
     if \<not> running then
       then_do (get_local telegraf_restart_retries) (\<lambda>retries.
       if retries < max_restart_retries then
         then_do (set_local (\<lambda>s. s\<lparr>telegraf_restart_retries := retries + 1\<rparr>)) (\<lambda>_.
         then_do (hutil_log_info
                    (''Telegraf binary process is not running. Restarting telegraf now. ''
                     @ ''Retry count - '' @ str_int (retries + 1))) (\<lambda>_.
         then_do (ext_raising (StopService Telegraf) (stop_telegraf_service E))
           (\<lambda>(tel_out, tel_msg).
         then_do (log_outcome tel_out tel_msg tel_msg) (\<lambda>_.
         then_do (ext_raising (StartService Telegraf) (start_telegraf E))
           (\<lambda>(start_telegraf_res, log_messages).
         log_outcome start_telegraf_res ''Successfully started metrics-sourcer.''
           log_messages)))))
       else
         hutil_log_error
           (''Telegraf binary process is not running. Failed to restart after ''
            @ str_int max_restart_retries @ '' retries. Please check telegraf.log''))
     else set_local (\<lambda>s. s\<lparr>telegraf_restart_retries := 0\<rparr>))"

definition check_me :: "'w handlers \<Rightarrow> ('w watcher, unit) prog" where
  "check_me E =
     then_do (ext_raising (IsRunning MetricsExtension) (me_is_running E)) (\<lambda>running.
     if \<not> running then
       then_do (get_local me_restart_retries) (\<lambda>retries.
       if retries < max_restart_retries then
         then_do (set_local (\<lambda>s. s\<lparr>me_restart_retries := retries + 1\<rparr>)) (\<lambda>_.
         then_do (hutil_log_info
                    (''MetricsExtension binary process is not running. ''
                     @ ''Restarting MetricsExtension now. Retry count - ''
                     @ str_int (retries + 1))) (\<lambda>_.
         then_do (ext_raising (StopService MetricsExtension) (stop_metrics_service E))
           (\<lambda>(me_out, me_msg).
         then_do (log_outcome me_out me_msg me_msg) (\<lambda>_.
         then_do (ext_raising (StartService MetricsExtension) (start_metrics E))
           (\<lambda>(start_metrics_out, log_messages).
         log_outcome start_metrics_out ''Successfully started metrics-extension.''
           log_messages)))))
       else
         hutil_log_error
           (''MetricsExtension binary process is not running. Failed to restart after ''
            @ str_int max_restart_retries
            @ '' retries. Please check /var/log/syslog for ME logs''))
     else set_local (\<lambda>s. s\<lparr>me_restart_retries := 0\<rparr>))"

text \<open>Lines 860-862 set both counters to 0 in every pass, before the two checks.\<close>

definition health_check :: "'w handlers \<Rightarrow> ('w watcher, unit) prog" where
  "health_check E =
     then_do (set_local (\<lambda>s. s\<lparr>telegraf_restart_retries := 0, me_restart_retries := 0\<rparr>)) (\<lambda>_.
     then_do (check_telegraf E) (\<lambda>_.
     check_me E))"

subsection \<open>One pass of the loop (lines 761-912)\<close>

definition active_config ::
  "'w handlers \<Rightarrow> pyval \<Rightarrow> pyval \<Rightarrow> pyval \<Rightarrow> string \<Rightarrow> ('w watcher, unit) prog" where
  "active_config E identifier_name identifier_value json_data data =
     (let crc = sha256_hexdigest E data in
      then_do (get_local last_crc) (\<lambda>previous.
      then_do (if Some crc \<noteq> previous then setup_metrics E json_data data crc else ret ()) (\<lambda>_.
      then_do (refresh_token E identifier_name identifier_value) (\<lambda>_.
      health_check E))))"

definition cycle_body :: "'w handlers \<Rightarrow> pyval \<Rightarrow> pyval \<Rightarrow> ('w watcher, unit) prog" where
  "cycle_body E identifier_name identifier_value =
     then_do (ext (IsFile MdsdCounterJsonPath) (isfile E MdsdCounterJsonPath)) (\<lambda>present.
     if present then
       then_do (ext_raising (ReadFile MdsdCounterJsonPath) (read_file E MdsdCounterJsonPath))
         (\<lambda>data.
       if data \<noteq> [] then
         then_do (lift (json_loads E data)) (\<lambda>json_data.
         then_do (lift (py_len json_data)) (\<lambda>n.
         if n = 0 then cleared_config E data
         else active_config E identifier_name identifier_value json_data data))
       else ret ())
     else ret ())"

text \<open>\<^verbatim>\<open>except IOError as e\<close>, then \<^verbatim>\<open>except Exception as e\<close>.\<close>

fun on_exception :: "exn \<Rightarrow> (('w, 'm) state_scheme, unit) prog" where
  "on_exception (Raised cls msg) =
     (if cls = IOError
      then hutil_log_error (''I/O error in setting up or monitoring metrics. Exception='' @ msg)
      else hutil_log_error (''Error in setting up or monitoring metrics. Exception='' @ msg))"

definition cycle :: "'w handlers \<Rightarrow> pyval \<Rightarrow> pyval \<Rightarrow> ('w watcher, unit) prog" where
  "cycle E identifier_name identifier_value =
     try_finally (try_except (cycle_body E identifier_name identifier_value) on_exception)
       (time_sleep sleepTime)"

text \<open>\<^verbatim>\<open>while True\<close> never ends by itself: \<open>watcher_loop n\<close> is its first \<open>n\<close> passes.\<close>

fun watcher_loop :: "nat \<Rightarrow> 'w handlers \<Rightarrow> pyval \<Rightarrow> pyval \<Rightarrow> ('w watcher, unit) prog" where
  "watcher_loop 0 E identifier_name identifier_value = ret ()"
| "watcher_loop (Suc n) E identifier_name identifier_value =
     then_do (cycle E identifier_name identifier_value) (\<lambda>_.
     watcher_loop n E identifier_name identifier_value)"

text \<open>\<^verbatim>\<open>metrics_watcher\<close> up to its \<open>n\<close>-th pass; \<open>public_settings\<close> is what
  \<^verbatim>\<open>get_settings()\<close> gives \<^verbatim>\<open>get_managed_identity\<close>.\<close>

definition metrics_watcher :: "'w handlers \<Rightarrow> pyval \<Rightarrow> nat \<Rightarrow> ('w watcher, unit) prog" where
  "metrics_watcher E public_settings n =
     then_do (lift (get_managed_identity public_settings))
       (\<lambda>(identifier_name, identifier_value, error_msg).
     then_do (if error_msg \<noteq> []
              then hutil_log_error
                     (''Failed to determine managed identity settings; MSI token retreival ''
                      @ ''will rely on default identity, if any. '' @ error_msg @ ''.'')
              else ret ()) (\<lambda>_.
     then_do (time_sleep sleepTime) (\<lambda>_.
     then_do (set_local (\<lambda>s. s\<lparr>last_crc := None, me_msi_token_expiry_epoch := PNone\<rparr>)) (\<lambda>_.
     watcher_loop n E identifier_name identifier_value))))"

subsection \<open>Reading the watcher's trace\<close>

text \<open>
  The calls to the two helper modules that a trace holds, in order: a liveness check
  with the answer it got, a stop, a removal, a start, the configuration of telegraf
  (\<^verbatim>\<open>handle_config\<close>), the set-up of MetricsExtension (\<^verbatim>\<open>setup_me\<close>) and a token request.
\<close>

datatype call =
  Checked agent bool
  | CheckFailed agent
  | Stopped agent
  | Removed agent
  | Started agent
  | Configured
  | SetUp
  | TokenRequested

fun lifecycle_calls :: "event list \<Rightarrow> call list" where
  "lifecycle_calls [] = []"
| "lifecycle_calls (IsRunning a (Inr b) # es) = Checked a b # lifecycle_calls es"
| "lifecycle_calls (IsRunning a (Inl e) # es) = CheckFailed a # lifecycle_calls es"
| "lifecycle_calls (StopService a r # es) = Stopped a # lifecycle_calls es"
| "lifecycle_calls (RemoveService a r # es) = Removed a # lifecycle_calls es"
| "lifecycle_calls (StartService a r # es) = Started a # lifecycle_calls es"
| "lifecycle_calls (HandleConfig j r # es) = Configured # lifecycle_calls es"
| "lifecycle_calls (SetupMe r # es) = SetUp # lifecycle_calls es"
| "lifecycle_calls (GenerateToken n v r # es) = TokenRequested # lifecycle_calls es"
| "lifecycle_calls (e # es) = lifecycle_calls es"

text \<open>A liveness check that restarts a sub-agent found down, and one that stops and
  removes a sub-agent found running.\<close>

definition restart_calls :: "agent \<Rightarrow> bool \<Rightarrow> call list" where
  "restart_calls a running = Checked a running # (if running then [] else [Stopped a, Started a])"

definition removal_calls :: "agent \<Rightarrow> bool \<Rightarrow> call list" where
  "removal_calls a running = Checked a running # (if running then [Stopped a, Removed a] else [])"



text \<open>The events a computation adds to the trace of the state it starts in.\<close>

definition new_events :: "(('w, 'm) state_scheme, 'a) prog \<Rightarrow> ('w, 'm) state_scheme \<Rightarrow> event list" where
  "new_events m s = drop (length (trace s)) (trace (snd (m s)))"

text \<open>A computation that only adds events to the trace, none of them a sleep, however it
  ends.\<close>

definition quiet :: "(('w, 'm) state_scheme, 'a) prog \<Rightarrow> bool" where
  "quiet m \<longleftrightarrow> (\<forall>s r s'. m s = (r, s') \<longrightarrow> (\<exists>evs. trace s' = trace s @ evs \<and> sleeps_of evs = []))"

text \<open>What a pass finds at the configuration path (lines 763-765).\<close>

datatype config = Absent | Unreadable exn | Content string

definition config_read :: "'w handlers \<Rightarrow> 'w \<Rightarrow> config" where
  "config_read E w =
     (case isfile E MdsdCounterJsonPath w of
        (False, w1) \<Rightarrow> Absent
      | (True, w1) \<Rightarrow>
          (case read_file E MdsdCounterJsonPath w1 of
             (Inl e, w2) \<Rightarrow> Unreadable e
           | (Inr data, w2) \<Rightarrow> Content data))"

text \<open>The world after the pass has looked at the configuration path and read the file.\<close>

definition world_after_read :: "'w handlers \<Rightarrow> 'w \<Rightarrow> 'w" where
  "world_after_read E w =
     (case isfile E MdsdCounterJsonPath w of
        (False, w1) \<Rightarrow> w1
      | (True, w1) \<Rightarrow> snd (read_file E MdsdCounterJsonPath w1))"

text \<open>The number of counters of a configuration text: what \<^verbatim>\<open>len(json.loads(data))\<close>
  gives, if it gives anything.\<close>

definition counters_of :: "'w handlers \<Rightarrow> string \<Rightarrow> exn + nat" where
  "counters_of E data = and_then (json_loads E data) py_len"

text \<open>No step of the pass raises.\<close>

definition completes :: "'w handlers \<Rightarrow> pyval \<Rightarrow> pyval \<Rightarrow> 'w watcher \<Rightarrow> bool" where
  "completes E identifier_name identifier_value s \<longleftrightarrow>
     fst (cycle_body E identifier_name identifier_value s) = Inr ()"

text \<open>The state of a pass that has found the file and read \<open>data\<close> from it.\<close>

definition after_read :: "'w handlers \<Rightarrow> string \<Rightarrow> 'w watcher \<Rightarrow> 'w watcher" where
  "after_read E data s =
     s\<lparr>world := world_after_read E (world s),
       trace := trace s @ [IsFile MdsdCounterJsonPath True,
                           ReadFile MdsdCounterJsonPath (Inr data)]\<rparr>"



subsection \<open>Concrete machines\<close>

text \<open>
  Machines to run the watcher on. Their world has no state of its own (\<open>unit\<close>): every
  helper answers the same way each time it is called. \<^verbatim>\<open>json.loads\<close> is given on the three
  texts the machines use, and the digest is the identity, which like SHA-256 on these
  texts gives equal digests for equal texts only.
\<close>

definition counters_json :: string where
  \<open>counters_json = ''{"cpu": 1}''\<close>

definition counters_json_spaced :: string where
  \<open>counters_json_spaced = ''{ "cpu": 1 }''\<close>

definition json_loads_sample :: "string \<Rightarrow> exn + pyval" where
  "json_loads_sample data =
     (if data = ''{}'' then Inr (PDict [])
      else if data = counters_json \<or> data = counters_json_spaced
      then Inr (PDict [(''cpu'', PNum 1)])
      else Inl (Raised ValueError
             ''Expecting property name enclosed in double quotes: line 1 column 2 (char 1)''))"

text \<open>
  The healthy machine: the configuration file holds one counter, both sub-agents run,
  every helper succeeds, there is no token file, the clock shows 1000 seconds after the
  epoch, and a token request gives a token that expires at 87400 seconds.
\<close>

definition healthy :: "unit handlers" where
  "healthy =
     \<lparr>isfile = (\<lambda>path w. (path = MdsdCounterJsonPath, w)),
      read_file = (\<lambda>path w. (Inr counters_json, w)),
      json_loads = json_loads_sample,
      sha256_hexdigest = (\<lambda>data. data),
      datetime_now = (\<lambda>w. (1000 * 1000000, w)),
      tel_is_running = (\<lambda>w. (Inr True, w)),
      stop_telegraf_service = (\<lambda>w. (Inr (True, ''telegraf stopped''), w)),
      remove_telegraf_service = (\<lambda>w. (Inr (True, ''telegraf removed''), w)),
      handle_config = (\<lambda>json_data w. (Inr (), w)),
      start_telegraf = (\<lambda>w. (Inr (True, []), w)),
      me_is_running = (\<lambda>w. (Inr True, w)),
      stop_metrics_service = (\<lambda>w. (Inr (True, ''metrics extension stopped''), w)),
      remove_metrics_service = (\<lambda>w. (Inr (True, ''metrics extension removed''), w)),
      setup_me = (\<lambda>w. (Inr (), w)),
      start_metrics = (\<lambda>w. (Inr (True, []), w)),
      generate_MSI_token = (\<lambda>identifier_name identifier_value w.
        (Inr (True, PStr ''87400'', []), w))\<rparr>"

text \<open>The watcher as it enters its loop (lines 758-759), and after a pass that has set
  the healthy machine up: the digest of the configuration and the token's expiry are in
  memory.\<close>

definition watcher_start :: "unit watcher" where
  "watcher_start =
     \<lparr>world = (), trace = [], last_crc = None, me_msi_token_expiry_epoch = PNone,
      telegraf_restart_retries = 0, me_restart_retries = 0\<rparr>"

definition watcher_settled :: "unit watcher" where
  "watcher_settled =
     watcher_start\<lparr>last_crc := Some counters_json, me_msi_token_expiry_epoch := PStr ''87400''\<rparr>"

text \<open>Variations of the healthy machine.\<close>

definition telegraf_down :: "unit handlers" where
  "telegraf_down = healthy\<lparr>tel_is_running := (\<lambda>w. (Inr False, w))\<rparr>"

definition config_absent :: "unit handlers" where
  "config_absent = healthy\<lparr>isfile := (\<lambda>path w. (False, w))\<rparr>"

definition config_empty :: "unit handlers" where
  "config_empty = healthy\<lparr>read_file := (\<lambda>path w. (Inr [], w))\<rparr>"

definition config_no_counters :: "unit handlers" where
  "config_no_counters = healthy\<lparr>read_file := (\<lambda>path w. (Inr ''{}'', w))\<rparr>"

definition config_spaced :: "unit handlers" where
  "config_spaced = healthy\<lparr>read_file := (\<lambda>path w. (Inr counters_json_spaced, w))\<rparr>"

definition config_malformed :: "unit handlers" where
  "config_malformed = healthy\<lparr>read_file := (\<lambda>path w. (Inr ''{cpu'', w))\<rparr>"

definition config_unreadable :: "unit handlers" where
  "config_unreadable =
     healthy\<lparr>read_file := (\<lambda>path w. (Inl (Raised IOError ''[Errno 13] Permission denied''), w))\<rparr>"

definition issuance_failing :: "unit handlers" where
  "issuance_failing =
     healthy\<lparr>generate_MSI_token := (\<lambda>identifier_name identifier_value w.
       (Inr (False, PStr [], ''Failed to get MSI token from IMDS''), w))\<rparr>"

text \<open>What a pass adds to the trace on the machine whose telegraf is down, once the
  machine is set up.\<close>

definition down_pass :: "event list" where
  "down_pass =
     [IsFile MdsdCounterJsonPath True,
      ReadFile MdsdCounterJsonPath (Inr counters_json),
      Now (1000 * 1000000),
      IsRunning Telegraf (Inr False),
      LogInfo (''Telegraf binary process is not running. Restarting telegraf now. ''
               @ ''Retry count - 1''),
      StopService Telegraf (Inr (True, ''telegraf stopped'')),
      LogInfo ''telegraf stopped'',
      StartService Telegraf (Inr (True, [])),
      LogInfo ''Successfully started metrics-sourcer.'',
      IsRunning MetricsExtension (Inr True),
      Sleep 30]"



section \<open>Proofs: commands and retries\<close>

lemma sleeps_of_append [simp]: "sleeps_of (xs @ ys) = sleeps_of xs @ sleeps_of ys"
  by (induction xs rule: sleeps_of.induct) auto

lemma commands_run_append [simp]: "commands_run (xs @ ys) = commands_run xs @ commands_run ys"
  by (induction xs rule: commands_run.induct) auto


lemma then_do_ret [simp]: "then_do (ret a) f s = f a s"
  by (simp add: then_do_def ret_def)

lemma then_do_raise [simp]: "then_do (raise e) f s = (Inl e, s)"
  by (simp add: then_do_def raise_def)

lemma then_do_Inr: "m s = (Inr a, s1) \<Longrightarrow> then_do m f s = f a s1"
  by (simp add: then_do_def)

lemma then_do_Inl: "m s = (Inl e, s1) \<Longrightarrow> then_do m f s = (Inl e, s1)"
  by (simp add: then_do_def)

lemma then_do_returns:
  "then_do m f s = (Inr b, s') \<longleftrightarrow> (\<exists>a s1. m s = (Inr a, s1) \<and> f a s1 = (Inr b, s'))"
  by (auto simp: then_do_def split: prod.splits sum.splits)

lemma then_do_emit [simp]: "then_do (emit e) f s = f () (s\<lparr>trace := trace s @ [e]\<rparr>)"
  by (simp add: then_do_def emit_def)

lemma contains_iff: "contains sub s \<longleftrightarrow> (\<exists>pre post. s = pre @ sub @ post)"
proof (induction s)
  case Nil
  then show ?case by auto
next
  case (Cons c cs)
  show ?case
  proof
    assume "contains sub (c # cs)"
    then consider "take (length sub) (c # cs) = sub" | "contains sub cs" by auto
    then show "\<exists>pre post. c # cs = pre @ sub @ post"
    proof cases
      case 1
      then have "c # cs = [] @ sub @ drop (length sub) (c # cs)"
        by (metis append_Nil append_take_drop_id)
      then show ?thesis by blast
    next
      case 2
      with Cons obtain pre post where "cs = pre @ sub @ post" by blast
      then have "c # cs = (c # pre) @ sub @ post" by simp
      then show ?thesis by blast
    qed
  next
    assume "\<exists>pre post. c # cs = pre @ sub @ post"
    then obtain pre post where eq: "c # cs = pre @ sub @ post" by blast
    show "contains sub (c # cs)"
    proof (cases pre)
      case Nil
      with eq have "take (length sub) (c # cs) = sub" by simp
      then show ?thesis by simp
    next
      case (Cons p ps)
      with eq have "cs = ps @ sub @ post" by simp
      with Cons.IH show ?thesis by auto
    qed
  qed
qed










subsection \<open>Claim C10: the exit code on a refused permission\<close>




subsection \<open>Claim C8: retries, backoff and the final check\<close>



section \<open>Proofs: the managed identity\<close>

lemma key_in_dict: "key \<in> fst ` set kvs \<longleftrightarrow> map_of kvs key \<noteq> None"
  by (simp add: map_of_eq_None_iff)

lemma guid_search_iff: "guid_search s \<longleftrightarrow> (\<exists>pre g post. s = pre @ g @ post \<and> guid_form g)"
proof (induction s)
  case Nil
  then show ?case by (auto simp: guid_form_def)
next
  case (Cons c cs)
  show ?case
  proof
    assume "guid_search (c # cs)"
    then consider "guid_form (take 36 (c # cs))" | "guid_search cs" by auto
    then show "\<exists>pre g post. c # cs = pre @ g @ post \<and> guid_form g"
    proof cases
      case 1
      have "c # cs = [] @ take 36 (c # cs) @ drop 36 (c # cs)" by simp
      with 1 show ?thesis by blast
    next
      case 2
      with Cons obtain pre g post where "cs = pre @ g @ post" "guid_form g" by blast
      then have "c # cs = (c # pre) @ g @ post \<and> guid_form g" by simp
      then show ?thesis by blast
    qed
  next
    assume "\<exists>pre g post. c # cs = pre @ g @ post \<and> guid_form g"
    then obtain pre g post where eq: "c # cs = pre @ g @ post" and g: "guid_form g" by blast
    from g have len: "length g = 36"
      by (auto simp: guid_form_def dest: list_all2_lengthD)
    show "guid_search (c # cs)"
    proof (cases pre)
      case Nil
      with eq len have "take 36 (c # cs) = g" by simp
      with g show ?thesis by simp
    next
      case (Cons p ps)
      with eq have "cs = ps @ g @ post" by simp
      with g Cons.IH show ?thesis by auto
    qed
  qed
qed

lemma managed_identity_specified:
  assumes "map_of kvs ''authentication'' = Some (PDict auth)"
    and "map_of auth ''managedIdentity'' = Some (PDict mi)"
    and "string_or_absent mi ''identifier-name''" and "string_or_absent mi ''identifier-value''"
  shows "\<exists>n v msg. get_managed_identity (PDict kvs) = Inr (n, v, msg)
           \<and> (msg \<noteq> [] \<longleftrightarrow> identity_invalid mi)"
  using assms
  by (auto simp: get_managed_identity_def and_then_def key_in_dict Let_def identity_invalid_def
        string_or_absent_def
      split: option.splits pyval.splits)

lemma managed_identity_unspecified:
  assumes "settings_typed ps" and "managed_identity_of ps = None"
  shows "get_managed_identity ps = Inr (PStr [], PStr [], [])"
  using assms
  by (auto simp: get_managed_identity_def and_then_def key_in_dict Let_def settings_typed_def
        managed_identity_of_def identity_typed_def
      split: option.splits pyval.splits)

subsection \<open>Claim C7: the error message of the managed identity\<close>

text \<open>
  What \<^verbatim>\<open>get_managed_identity\<close> reports, for settings whose fields have the types the
  handler schema gives them: the message is not empty exactly when a managed identity
  is specified and \<open>identity_invalid\<close> holds of it (a key is missing, the name is none
  of the three kinds, the value is empty, or the name is \<^verbatim>\<open>object_id\<close> or \<^verbatim>\<open>client_id\<close>
  and \<^verbatim>\<open>guid_re.search\<close> finds no GUID anywhere inside the value). Settings with no
  managed identity give an empty name, an empty value and no message.
\<close>

theorem managed_identity_error:
  assumes "settings_typed ps"
  shows "\<exists>n v msg. get_managed_identity ps = Inr (n, v, msg)
           \<and> (msg \<noteq> [] \<longleftrightarrow> (\<exists>mi. managed_identity_of ps = Some mi \<and> identity_invalid mi))
           \<and> (managed_identity_of ps = None \<longrightarrow> n = PStr [] \<and> v = PStr [] \<and> msg = [])"
proof (cases "managed_identity_of ps")
  case None
  with managed_identity_unspecified [OF assms] show ?thesis by simp
next
  case (Some mi)
  then obtain kvs auth where ps: "ps = PDict kvs"
    and a: "map_of kvs ''authentication'' = Some (PDict auth)"
    and m: "map_of auth ''managedIdentity'' = Some (PDict mi)"
    by (auto simp: managed_identity_of_def split: pyval.splits option.splits)
  from assms ps a m have t: "string_or_absent mi ''identifier-name''"
    "string_or_absent mi ''identifier-value''"
    by (simp_all add: settings_typed_def identity_typed_def)
  from managed_identity_specified [OF a m t] Some ps show ?thesis by auto
qed

text \<open>Settings with a value that holds no GUID give a message; no settings give none.\<close>

theorem managed_identity_error_witness:
  "settings_typed (settings_with_identity ''client_id'' ''not a guid'')
   \<and> (\<exists>n v msg. get_managed_identity (settings_with_identity ''client_id'' ''not a guid'')
                   = Inr (n, v, msg) \<and> msg \<noteq> [])
   \<and> settings_typed PNone
   \<and> get_managed_identity PNone = Inr (PStr [], PStr [], [])"
proof -
  let ?ps = "settings_with_identity ''client_id'' ''not a guid''"
  have t: "settings_typed ?ps" "settings_typed PNone"
    by (simp_all add: settings_typed_def settings_with_identity_def identity_typed_def
        string_or_absent_def)
  have i: "\<exists>mi. managed_identity_of ?ps = Some mi \<and> identity_invalid mi"
    by (simp add: managed_identity_of_def settings_with_identity_def identity_invalid_def
        guid_form_def)
  have n: "managed_identity_of PNone = None" by (simp add: managed_identity_of_def)
  from managed_identity_error [OF t(1)] i managed_identity_error [OF t(2)] n t
  show ?thesis by auto
qed

text \<open>
  Claim C7, against the code. The value of a \<^verbatim>\<open>client_id\<close> identity is tested with
  \<^verbatim>\<open>guid_re.search\<close>, which accepts any text that has a GUID somewhere inside it. For
  the value \<^verbatim>\<open>x00000000-0000-0000-0000-000000000000y\<close>, which is not of GUID syntax
  (38 characters, the first one no hexadecimal digit), the function returns the empty
  message, where the claim, and the code's own message
  \<^verbatim>\<open>identifier-value must be a GUID\<close>, require an error.
\<close>

theorem guid_inside_text_is_accepted:
  "get_managed_identity
     (settings_with_identity ''client_id'' ''x00000000-0000-0000-0000-000000000000y'')
     = Inr (PStr ''client_id'', PStr ''x00000000-0000-0000-0000-000000000000y'', [])
   \<and> \<not> guid_form ''x00000000-0000-0000-0000-000000000000y''
   \<and> guid_form ''00000000-0000-0000-0000-000000000000''"
  by (simp add: get_managed_identity_def and_then_def settings_with_identity_def Let_def
        guid_form_def is_hex_def)

section \<open>Proofs: the metrics watcher\<close>

lemma lifecycle_calls_append [simp]:
  "lifecycle_calls (xs @ ys) = lifecycle_calls xs @ lifecycle_calls ys"
  by (induction xs rule: lifecycle_calls.induct) auto

lemma lift_simp [simp]: "then_do (lift r) f s = (case r of Inl e \<Rightarrow> (Inl e, s) | Inr a \<Rightarrow> f a s)"
  by (simp add: then_do_def lift_def split: sum.splits)

lemma get_local_simp [simp]: "then_do (get_local g) f s = f (g s) s"
  by (simp add: then_do_def get_local_def)

lemma set_local_simp [simp]: "then_do (set_local g) f s = f () (g s)"
  by (simp add: then_do_def set_local_def)

lemma log_outcome_simp [simp]:
  "log_outcome ok good bad s
     = (Inr (), s\<lparr>trace := trace s @ [if ok then LogInfo good else LogError bad]\<rparr>)"
  by (simp add: log_outcome_def hutil_log_info_def hutil_log_error_def emit_def)

lemma then_do_log_outcome [simp]:
  "then_do (log_outcome ok good bad) f s
     = f () (s\<lparr>trace := trace s @ [if ok then LogInfo good else LogError bad]\<rparr>)"
  by (simp add: then_do_def)

lemma then_do_ext [simp]:
  "then_do (ext ev g) f s
     = (case g (world s) of (r, w') \<Rightarrow> f r (s\<lparr>world := w', trace := trace s @ [ev r]\<rparr>))"
  by (simp add: then_do_def ext_def split: prod.splits)

lemma then_do_ext_raising [simp]:
  "then_do (ext_raising ev g) f s
     = (case g (world s) of
          (Inl e, w') \<Rightarrow> (Inl e, s\<lparr>world := w', trace := trace s @ [ev (Inl e)]\<rparr>)
        | (Inr a, w') \<Rightarrow> f a (s\<lparr>world := w', trace := trace s @ [ev (Inr a)]\<rparr>))"
  by (simp add: then_do_def ext_raising_def split: prod.splits sum.splits)

lemma stop_and_remove_telegraf_calls:
  assumes "stop_and_remove_telegraf E s = (Inr u, s')"
  shows "\<exists>running evs. trace s' = trace s @ evs
           \<and> lifecycle_calls evs = removal_calls Telegraf running
           \<and> sleeps_of evs = []
           \<and> last_crc s' = last_crc s
           \<and> me_msi_token_expiry_epoch s' = me_msi_token_expiry_epoch s"
  using assms
  by (auto simp: stop_and_remove_telegraf_def removal_calls_def ret_def
           split: prod.splits sum.splits if_splits)


lemma stop_and_remove_me_calls:
  assumes "stop_and_remove_me E s = (Inr u, s')"
  shows "\<exists>running evs. trace s' = trace s @ evs
           \<and> lifecycle_calls evs = removal_calls MetricsExtension running
           \<and> sleeps_of evs = []
           \<and> last_crc s' = last_crc s
           \<and> me_msi_token_expiry_epoch s' = me_msi_token_expiry_epoch s"
  using assms
  by (auto simp: stop_and_remove_me_def removal_calls_def ret_def
           split: prod.splits sum.splits if_splits)

lemma cleared_config_calls:
  assumes "cleared_config E data s = (Inr u, s')"
  shows "\<exists>tel_running me_running evs. trace s' = trace s @ evs
           \<and> lifecycle_calls evs
               = removal_calls Telegraf tel_running @ removal_calls MetricsExtension me_running
           \<and> sleeps_of evs = []
           \<and> last_crc s' = Some (sha256_hexdigest E data)
           \<and> me_msi_token_expiry_epoch s' = me_msi_token_expiry_epoch s"
proof -
  let ?s0 = "s\<lparr>last_crc := Some (sha256_hexdigest E data)\<rparr>"
  from assms obtain u1 s1 where
    a: "stop_and_remove_telegraf E ?s0 = (Inr u1, s1)" and b: "stop_and_remove_me E s1 = (Inr u, s')"
    by (auto simp: cleared_config_def then_do_returns)
  from stop_and_remove_telegraf_calls [OF a] obtain r1 evs1 where
    1: "trace s1 = trace s @ evs1" "lifecycle_calls evs1 = removal_calls Telegraf r1"
       "sleeps_of evs1 = []" "last_crc s1 = Some (sha256_hexdigest E data)"
       "me_msi_token_expiry_epoch s1 = me_msi_token_expiry_epoch s"
    by auto
  from stop_and_remove_me_calls [OF b] obtain r2 evs2 where
    2: "trace s' = trace s1 @ evs2" "lifecycle_calls evs2 = removal_calls MetricsExtension r2"
       "sleeps_of evs2 = []" "last_crc s' = last_crc s1"
       "me_msi_token_expiry_epoch s' = me_msi_token_expiry_epoch s1"
    by auto
  have "trace s' = trace s @ (evs1 @ evs2)" using 1 2 by simp
  moreover have "lifecycle_calls (evs1 @ evs2)
      = removal_calls Telegraf r1 @ removal_calls MetricsExtension r2"
    using 1 2 by simp
  moreover have "sleeps_of (evs1 @ evs2) = []" using 1 2 by simp
  ultimately show ?thesis using 1 2 by metis
qed










lemma new_eventsI:
  assumes "m s = (r, s')" and "trace s' = trace s @ evs"
  shows "new_events m s = evs"
  using assms by (simp add: new_events_def)




lemma cycle_body_content:
  assumes "config_read E (world s) = Content data"
  shows "cycle_body E idn idv s
           = (if data = [] then (Inr (), after_read E data s)
              else (case json_loads E data of
                      Inl e \<Rightarrow> (Inl e, after_read E data s)
                    | Inr j \<Rightarrow>
                        (case py_len j of
                           Inl e \<Rightarrow> (Inl e, after_read E data s)
                         | Inr n \<Rightarrow>
                             if n = 0 then cleared_config E data (after_read E data s)
                             else active_config E idn idv j data (after_read E data s))))"
  using assms
  by (auto simp: cycle_body_def config_read_def world_after_read_def ret_def after_read_def
           split: prod.splits sum.splits bool.splits if_splits)

lemma cycle_of_body:
  "cycle E idn idv s
     = (case cycle_body E idn idv s of
          (Inr u, s1) \<Rightarrow> (Inr (), s1\<lparr>trace := trace s1 @ [Sleep 30]\<rparr>)
        | (Inl (Raised cls msg), s1) \<Rightarrow>
            (Inr (), s1\<lparr>trace := trace s1 @
               [LogError ((if cls = IOError
                           then ''I/O error in setting up or monitoring metrics. Exception=''
                           else ''Error in setting up or monitoring metrics. Exception='') @ msg),
                Sleep 30]\<rparr>))"
  by (auto simp: cycle_def try_finally_def try_except_def time_sleep_def sleepTime_def emit_def
        hutil_log_error_def split: prod.splits sum.splits exn.splits)

lemma quietI:
  assumes "\<And>s r s'. m s = (r, s') \<Longrightarrow> \<exists>evs. trace s' = trace s @ evs \<and> sleeps_of evs = []"
  shows "quiet m"
  using assms unfolding quiet_def by blast

lemma quietD:
  assumes "quiet m" and "m s = (r, s')"
  shows "\<exists>evs. trace s' = trace s @ evs \<and> sleeps_of evs = []"
  using assms unfolding quiet_def by blast

named_theorems quiet_intros

lemma quiet_ret [quiet_intros]: "quiet (ret a)"
  by (rule quietI) (simp add: ret_def)

lemma quiet_raise [quiet_intros]: "quiet (raise e)"
  by (rule quietI) (simp add: raise_def)

lemma quiet_lift [quiet_intros]: "quiet (lift r)"
  by (rule quietI) (simp add: lift_def)

lemma quiet_get_local [quiet_intros]: "quiet (get_local g)"
  by (rule quietI) (simp add: get_local_def)




lemma quiet_log_info [quiet_intros]: "quiet (hutil_log_info m)"
  by (rule quietI) (auto simp: hutil_log_info_def emit_def)

lemma quiet_log_error [quiet_intros]: "quiet (hutil_log_error m)"
  by (rule quietI) (auto simp: hutil_log_error_def emit_def)

lemma quiet_log_outcome [quiet_intros]: "quiet (log_outcome ok good bad)"
  by (rule quietI) auto

lemma quiet_then_do [quiet_intros]:
  assumes "quiet m" and "\<And>a. quiet (f a)"
  shows "quiet (then_do m f)"
proof (rule quietI)
  fix s r s'
  assume run: "then_do m f s = (r, s')"
  obtain r1 s1 where m: "m s = (r1, s1)" by (cases "m s")
  from quietD [OF assms(1) m] obtain evs1 where
    1: "trace s1 = trace s @ evs1" "sleeps_of evs1 = []" by blast
  show "\<exists>evs. trace s' = trace s @ evs \<and> sleeps_of evs = []"
  proof (cases r1)
    case (Inl e)
    with run m have "s' = s1" by (simp add: then_do_def)
    with 1 show ?thesis by blast
  next
    case (Inr a)
    with run m have "f a s1 = (r, s')" by (simp add: then_do_def)
    from quietD [OF assms(2) this] obtain evs2 where
      "trace s' = trace s1 @ evs2" "sleeps_of evs2 = []" by blast
    with 1 have "trace s' = trace s @ (evs1 @ evs2) \<and> sleeps_of (evs1 @ evs2) = []" by simp
    then show ?thesis by blast
  qed
qed

lemma quiet_if [quiet_intros]:
  assumes "b \<Longrightarrow> quiet m" and "\<not> b \<Longrightarrow> quiet n"
  shows "quiet (if b then m else n)"
  using assms by simp

lemma quiet_case_prod [quiet_intros]:
  assumes "\<And>a b. quiet (f a b)"
  shows "quiet (case p of (a, b) \<Rightarrow> f a b)"
  using assms by (cases p) simp












lemmas machine_defs = healthy_def telegraf_down_def config_absent_def config_empty_def
  config_no_counters_def config_spaced_def config_malformed_def config_unreadable_def
  issuance_failing_def watcher_start_def watcher_settled_def counters_json_def
  counters_json_spaced_def json_loads_sample_def MdsdCounterJsonPath_def me_token_path_def

lemmas watcher_defs = cycle_def cycle_body_def active_config_def cleared_config_def
  setup_metrics_def refresh_token_def consult_token_file_def check_expiry_def
  generate_if_needed_def health_check_def check_telegraf_def check_me_def
  stop_and_remove_telegraf_def stop_and_remove_me_def try_finally_def try_except_def
  time_sleep_def sleepTime_def hutil_log_info_def hutil_log_error_def emit_def ret_def
  raise_def set_local_def max_restart_retries_def then_do_def lift_def get_local_def
  ext_def ext_raising_def log_outcome_def

lemmas python_defs = int_of_str_def strip_def rstrip_def is_space_def is_digit_def
  digit_val_def fromtimestamp_def timedelta_minutes_def str_int_def digit_char_def

lemma unit_world [simp]: "(s :: unit watcher)\<lparr>world := ()\<rparr> = s"
  by (cases s) simp

lemma telegraf_down_cycle:
  fixes s :: "unit watcher"
  assumes "last_crc s = Some counters_json" and "me_msi_token_expiry_epoch s = PStr ''87400''"
  shows "cycle telegraf_down idn idv s
           = (Inr (), s\<lparr>trace := trace s @ down_pass,
                        telegraf_restart_retries := 1, me_restart_retries := 0\<rparr>)"
  using assms
  by (simp add: watcher_defs machine_defs python_defs down_pass_def Let_def)


lemma lifecycle_calls_concat:
  "lifecycle_calls (concat (replicate n evs)) = concat (replicate n (lifecycle_calls evs))"
  by (induction n) simp_all

lemma telegraf_down_loop:
  fixes s :: "unit watcher"
  assumes "last_crc s = Some counters_json" and "me_msi_token_expiry_epoch s = PStr ''87400''"
  shows "\<exists>s'. watcher_loop n telegraf_down idn idv s = (Inr (), s')
           \<and> trace s' = trace s @ concat (replicate n down_pass)"
  using assms
proof (induction n arbitrary: s)
  case 0
  then show ?case by (simp add: ret_def)
next
  case (Suc n)
  let ?s1 = "s\<lparr>trace := trace s @ down_pass, telegraf_restart_retries := 1,
               me_restart_retries := 0\<rparr>"
  have c: "cycle telegraf_down idn idv s = (Inr (), ?s1)"
    using Suc.prems by (rule telegraf_down_cycle)
  have "last_crc ?s1 = Some counters_json" "me_msi_token_expiry_epoch ?s1 = PStr ''87400''"
    using Suc.prems by simp_all
  from Suc.IH [OF this] obtain s' where
    "watcher_loop n telegraf_down idn idv ?s1 = (Inr (), s')"
    "trace s' = trace ?s1 @ concat (replicate n down_pass)"
    by blast
  with c show ?case by (simp add: then_do_def)
qed

lemma new_events_cycle:
  assumes "cycle_body E idn idv s = (Inr u, s1)" and "trace s1 = trace s @ evs"
  shows "new_events (cycle E idn idv) s = evs @ [Sleep sleepTime]"
    and "last_crc (snd (cycle E idn idv s)) = last_crc s1"
  using assms by (simp_all add: cycle_of_body new_events_def sleepTime_def)


lemma cycle_empty:
  assumes "config_read E (world s) = Content []"
  shows "new_events (cycle E idn idv) s
           = [IsFile MdsdCounterJsonPath True, ReadFile MdsdCounterJsonPath (Inr []),
              Sleep sleepTime]"
    and "last_crc (snd (cycle E idn idv s)) = last_crc s"
proof -
  have body: "cycle_body E idn idv s = (Inr (), after_read E [] s)"
    using cycle_body_content [OF assms] by simp
  have tr: "trace (after_read E [] s)
              = trace s @ [IsFile MdsdCounterJsonPath True, ReadFile MdsdCounterJsonPath (Inr [])]"
    by (simp add: after_read_def)
  from new_events_cycle [OF body tr]
  show "new_events (cycle E idn idv) s
           = [IsFile MdsdCounterJsonPath True, ReadFile MdsdCounterJsonPath (Inr []),
              Sleep sleepTime]"
    and "last_crc (snd (cycle E idn idv s)) = last_crc s"
    by (simp_all add: after_read_def)
qed

lemma counters_ofD:
  assumes "counters_of E data = Inr n"
  obtains j where "json_loads E data = Inr j" and "py_len j = Inr n"
  using assms by (auto simp: counters_of_def and_then_def split: sum.splits)

lemma cycle_cleared:
  assumes rd: "config_read E (world s) = Content data" and ne: "data \<noteq> []"
    and cnt: "counters_of E data = Inr 0" and ok: "completes E idn idv s"
  shows "\<exists>tel_running me_running.
           lifecycle_calls (new_events (cycle E idn idv) s)
             = removal_calls Telegraf tel_running @ removal_calls MetricsExtension me_running
         \<and> last_crc (snd (cycle E idn idv s)) = Some (sha256_hexdigest E data)"
proof -
  from cnt obtain j where j: "json_loads E data = Inr j" "py_len j = Inr 0"
    by (rule counters_ofD)
  have body: "cycle_body E idn idv s = cleared_config E data (after_read E data s)"
    using cycle_body_content [OF rd] ne j by simp
  from ok obtain s1 where fin: "cleared_config E data (after_read E data s) = (Inr (), s1)"
    unfolding completes_def body by (cases "cleared_config E data (after_read E data s)") auto
  from cleared_config_calls [OF fin] obtain r1 r2 evs where
    1: "trace s1 = trace (after_read E data s) @ evs"
       "lifecycle_calls evs = removal_calls Telegraf r1 @ removal_calls MetricsExtension r2"
       "last_crc s1 = Some (sha256_hexdigest E data)"
    by blast
  let ?pre = "[IsFile MdsdCounterJsonPath True, ReadFile MdsdCounterJsonPath (Inr data)]"
  have tr: "trace s1 = trace s @ (?pre @ evs)" using 1 by (simp add: after_read_def)
  from new_events_cycle [OF body [unfolded fin] tr] 1
  have "lifecycle_calls (new_events (cycle E idn idv) s)
          = removal_calls Telegraf r1 @ removal_calls MetricsExtension r2"
    and "last_crc (snd (cycle E idn idv s)) = Some (sha256_hexdigest E data)"
    by simp_all
  then show ?thesis by blast
qed


lemma config_read_healthy [simp]:
  "config_read healthy w = Content counters_json"
  "config_read telegraf_down w = Content counters_json"
  "config_read issuance_failing w = Content counters_json"
  "config_read config_absent w = Absent"
  "config_read config_empty w = Content []"
  "config_read config_no_counters w = Content ''{}''"
  "config_read config_spaced w = Content counters_json_spaced"
  "config_read config_malformed w = Content ''{cpu''"
  "config_read config_unreadable w = Unreadable (Raised IOError ''[Errno 13] Permission denied'')"
  by (simp_all add: config_read_def machine_defs)

lemma counters_of_machines [simp]:
  "counters_of healthy counters_json = Inr (Suc 0)"
  "counters_of telegraf_down counters_json = Inr (Suc 0)"
  "counters_of issuance_failing counters_json = Inr (Suc 0)"
  "counters_of config_spaced counters_json_spaced = Inr (Suc 0)"
  "counters_of config_no_counters ''{}'' = Inr 0"
  by (simp_all add: counters_of_def and_then_def machine_defs)


lemma no_counters_settled:
  "cycle_body config_no_counters idn idv watcher_settled
     = (Inr (), watcher_settled\<lparr>trace :=
          [IsFile MdsdCounterJsonPath True,
           ReadFile MdsdCounterJsonPath (Inr ''{}''),
           IsRunning Telegraf (Inr True),
           StopService Telegraf (Inr (True, ''telegraf stopped'')),
           LogInfo ''telegraf stopped'',
           RemoveService Telegraf (Inr (True, ''telegraf removed'')),
           LogInfo ''telegraf removed'',
           IsRunning MetricsExtension (Inr True),
           StopService MetricsExtension (Inr (True, ''metrics extension stopped'')),
           LogInfo ''metrics extension stopped'',
           RemoveService MetricsExtension (Inr (True, ''metrics extension removed'')),
           LogInfo ''metrics extension removed''],
          last_crc := Some ''{}''\<rparr>)"
  by (simp add: watcher_defs machine_defs python_defs Let_def)















section \<open>The claims on the watcher\<close>

subsection \<open>Claim C1: the restart budget\<close>

text \<open>
  Claim C1, against the code. The configuration file holds one counter and does not
  change, its digest is the recorded one, and \<^verbatim>\<open>telhandler.is_running\<close> answers
  \<^verbatim>\<open>False\<close> in every pass. Then each of \<open>n\<close> consecutive passes stops and starts
  telegraf again: eleven passes make eleven restart attempts, one more than
  \<^verbatim>\<open>max_restart_retries\<close>, which is 10. The two retry counters are set to 0 in every
  pass (lines 860 to 862 stand inside the loop), so the test
  \<^verbatim>\<open>telegraf_restart_retries < max_restart_retries\<close> never fails.
\<close>

theorem restarts_exceed_the_budget:
  "lifecycle_calls (new_events (watcher_loop n telegraf_down idn idv) watcher_settled)
     = concat (replicate n (restart_calls Telegraf False @ restart_calls MetricsExtension True))
   \<and> count_list (lifecycle_calls
         (new_events (watcher_loop 11 telegraf_down idn idv) watcher_settled)) (Started Telegraf)
       = 11
   \<and> max_restart_retries = 10"
proof -
  have a: "last_crc watcher_settled = Some counters_json"
    and b: "me_msi_token_expiry_epoch watcher_settled = PStr ''87400''"
    by (simp_all add: watcher_settled_def watcher_start_def)
  have calls: "lifecycle_calls down_pass
                 = restart_calls Telegraf False @ restart_calls MetricsExtension True"
    by (simp add: down_pass_def restart_calls_def)
  have run: "lifecycle_calls (new_events (watcher_loop k telegraf_down idn idv) watcher_settled)
     = concat (replicate k (restart_calls Telegraf False @ restart_calls MetricsExtension True))"
    for k
  proof -
    from telegraf_down_loop [OF a b, of k idn idv] obtain s' where
      "watcher_loop k telegraf_down idn idv watcher_settled = (Inr (), s')"
      "trace s' = trace watcher_settled @ concat (replicate k down_pass)"
      by blast
    then have "new_events (watcher_loop k telegraf_down idn idv) watcher_settled
                 = concat (replicate k down_pass)"
      by (rule new_eventsI)
    then show ?thesis by (simp add: lifecycle_calls_concat calls)
  qed
  have "count_list (concat (replicate 11
          (restart_calls Telegraf False @ restart_calls MetricsExtension True))) (Started Telegraf)
        = 11"
    by (simp add: restart_calls_def eval_nat_numeral)
  with run show ?thesis by (simp add: max_restart_retries_def)
qed

subsection \<open>Claim C2: when liveness is checked\<close>




subsection \<open>Claim C3: when a token is requested\<close>




subsection \<open>Claim C4: a cleared configuration\<close>

text \<open>
  Claim C4, as amended.
  \<^item> When the file holds the empty string, the pass reads it and sleeps: no sub-agent is
    asked, stopped or removed, and the recorded digest stays as it was.
  \<^item> When the file holds JSON of length 0 and no step raises, the digest of the content
    is recorded and each sub-agent is asked whether it runs; one that runs is stopped
    and then removed, one that does not is neither stopped nor removed. The recorded
    digest is not consulted: this happens in every such pass.
\<close>

theorem cleared_config_stops_then_removes:
  fixes s :: "'w watcher"
  shows
    "(config_read E (world s) = Content [] \<longrightarrow>
        new_events (cycle E idn idv) s
          = [IsFile MdsdCounterJsonPath True, ReadFile MdsdCounterJsonPath (Inr []),
             Sleep sleepTime]
        \<and> last_crc (snd (cycle E idn idv s)) = last_crc s)
   \<and> (config_read E (world s) = Content data \<and> data \<noteq> [] \<and> counters_of E data = Inr 0
        \<and> completes E idn idv s \<longrightarrow>
        (\<exists>tel_running me_running.
           lifecycle_calls (new_events (cycle E idn idv) s)
             = removal_calls Telegraf tel_running @ removal_calls MetricsExtension me_running
           \<and> last_crc (snd (cycle E idn idv s)) = Some (sha256_hexdigest E data)))
   \<and> removal_calls a True = [Checked a True, Stopped a, Removed a]
   \<and> removal_calls a False = [Checked a False]"
  using cycle_empty [of E s idn idv] cycle_cleared [of E s data idn idv]
  by (simp add: removal_calls_def)

text \<open>The two cases of C4 on concrete machines: an empty file, and the file \<^verbatim>\<open>{}\<close>.\<close>

theorem cleared_config_stops_then_removes_witness:
  "config_read config_empty (world watcher_settled) = Content []
   \<and> new_events (cycle config_empty PNone PNone) watcher_settled
       = [IsFile MdsdCounterJsonPath True, ReadFile MdsdCounterJsonPath (Inr []),
          Sleep sleepTime]
   \<and> last_crc (snd (cycle config_empty PNone PNone watcher_settled)) = last_crc watcher_settled
   \<and> config_read config_no_counters (world watcher_settled) = Content ''{}''
   \<and> counters_of config_no_counters ''{}'' = Inr 0
   \<and> completes config_no_counters PNone PNone watcher_settled
   \<and> (\<exists>tel_running me_running.
         lifecycle_calls (new_events (cycle config_no_counters PNone PNone) watcher_settled)
           = removal_calls Telegraf tel_running @ removal_calls MetricsExtension me_running
         \<and> last_crc (snd (cycle config_no_counters PNone PNone watcher_settled))
             = Some (sha256_hexdigest config_no_counters ''{}''))"
proof -
  have ne: "''{}'' \<noteq> []" by simp
  have c1: "completes config_no_counters PNone PNone watcher_settled"
    by (simp add: completes_def no_counters_settled)
  from cleared_config_stops_then_removes [where E = config_empty and s = watcher_settled
        and idn = PNone and idv = PNone]
    cleared_config_stops_then_removes [where E = config_no_counters and s = watcher_settled
        and data = "''{}''" and idn = PNone and idv = PNone]
    ne c1
  show ?thesis by simp
qed

text \<open>
  Claim C4 as stated fails: with both sub-agents running and the empty file's digest
  different from the recorded one, a pass over an empty file stops and removes
  nothing.
\<close>

theorem empty_file_is_not_cleared:
  "tel_is_running config_empty () = (Inr True, ())
   \<and> me_is_running config_empty () = (Inr True, ())
   \<and> last_crc watcher_settled \<noteq> Some (sha256_hexdigest config_empty [])
   \<and> new_events (cycle config_empty PNone PNone) watcher_settled
     = [IsFile MdsdCounterJsonPath True, ReadFile MdsdCounterJsonPath (Inr []), Sleep 30]"
  by (simp add: new_events_def watcher_defs machine_defs)

subsection \<open>Claim C5: a token request that fails\<close>




subsection \<open>Claim C6: an unchanged configuration\<close>




subsection \<open>Claim C9: failures inside a pass\<close>



end
